theory Spec2Isabelle
  imports Complex_Main "HOL-Library.Multiset" "HOL-Library.AList"
begin

section \<open>JavaScript values used by the race-chart code\<close>

text \<open>
  Strings are modelled as lists of 8-bit characters; every text the parser handles is taken
  to be ASCII, where a JavaScript string's UTF-16 code units, its code points and these
  characters coincide. A JavaScript number that the position parser produces is either an
  integer or \<open>NaN\<close>.
\<close>

datatype jsnum = NaN | Num int

definition is_digit :: "char \<Rightarrow> bool" where
  "is_digit c = (c \<in> set ''0123456789'')"

definition digit_val :: "char \<Rightarrow> int" where
  "digit_val c = int (of_char c) - 48"

text \<open>
  \<open>parseInt\<close> on the strings this program hands to it: a single character, or a run of
  decimal digits. It reads the leading decimal digits and yields \<open>NaN\<close> when there are none.
  (JavaScript's \<open>parseInt\<close> also skips leading white space, accepts a sign and a \<open>0x\<close>
  prefix; none of these can occur in a single character or in a digit run.)
\<close>

definition parseInt :: "string \<Rightarrow> jsnum" where
  "parseInt s =
     (case takeWhile is_digit s of
        [] \<Rightarrow> NaN
      | d # ds \<Rightarrow> Num (foldl (\<lambda>a c. 10 * a + digit_val c) 0 (d # ds)))"

definition substring :: "string \<Rightarrow> nat \<Rightarrow> nat \<Rightarrow> string" where
  "substring s i j = take (j - i) (drop i s)"

section \<open>Position digit disambiguator: \<open>RaceChartParser.parsePositions\<close>\<close>

text \<open>
  The \<open>while (i < digitsStr.length)\<close> loop of the source, with the index \<open>i\<close> and the
  array \<open>positions\<close> as arguments. Every read \<open>digitsStr[i + 1]\<close> is guarded by
  \<open>i + 1 < digitsStr.length\<close>, as in the source.
\<close>

function parsePositions_loop :: "string \<Rightarrow> int \<Rightarrow> nat \<Rightarrow> jsnum list \<Rightarrow> jsnum list" where
  "parsePositions_loop digitsStr expectedCount i positions =
     (if i < length digitsStr then
        if digitsStr ! i = CHR ''1'' \<and> i + 1 < length digitsStr \<and> digitsStr ! (i + 1) = CHR ''0''
        then parsePositions_loop digitsStr expectedCount (i + 2) (positions @ [Num 10])
        else if digitsStr ! i = CHR ''1'' \<and> i + 1 < length digitsStr
                \<and> (digitsStr ! (i + 1) = CHR ''1'' \<or> digitsStr ! (i + 1) = CHR ''2'')
                \<and> (expectedCount = 0 \<or> int (length digitsStr) > expectedCount)
        then parsePositions_loop digitsStr expectedCount (i + 2)
               (positions @ [parseInt (substring digitsStr i (i + 2))])
        else parsePositions_loop digitsStr expectedCount (i + 1)
               (positions @ [parseInt [digitsStr ! i]])
      else positions)"
  by pat_completeness auto
termination
  by (relation "measure (\<lambda>(digitsStr, expectedCount, i, positions). length digitsStr - i)") auto

declare parsePositions_loop.simps [simp del]

definition parsePositions :: "string \<Rightarrow> int \<Rightarrow> jsnum list" where
  "parsePositions digitsStr expectedCount =
     (if expectedCount > 0 \<and> int (length digitsStr) = expectedCount
      then map (\<lambda>d. parseInt [d]) digitsStr
      else parsePositions_loop digitsStr expectedCount 0 [])"

text \<open>
  The rule as the specification words it: every digit singly when the run length equals the
  expected count; otherwise a left-to-right scan in which \<open>1\<close> then \<open>0\<close> is always 10,
  and \<open>1\<close> then \<open>1\<close> or \<open>2\<close> is a double-digit position only if the run is longer than
  the expected count.
\<close>

fun disambiguate_scan :: "bool \<Rightarrow> string \<Rightarrow> jsnum list" where
  "disambiguate_scan longer [] = []"
| "disambiguate_scan longer [c] = [parseInt [c]]"
| "disambiguate_scan longer (c # d # rest) =
     (if c = CHR ''1'' \<and> d = CHR ''0'' then Num 10 # disambiguate_scan longer rest
      else if c = CHR ''1'' \<and> (d = CHR ''1'' \<or> d = CHR ''2'') \<and> longer
      then Num (10 + digit_val d) # disambiguate_scan longer rest
      else parseInt [c] # disambiguate_scan longer (d # rest))"

definition disambiguate :: "string \<Rightarrow> int \<Rightarrow> jsnum list" where
  "disambiguate run expected =
     (if int (length run) = expected then map (\<lambda>d. parseInt [d]) run
      else disambiguate_scan (int (length run) > expected) run)"

section \<open>String operations\<close>

text \<open>
  \<open>toUpperCase\<close>, \<open>toLowerCase\<close>, \<open>trim\<close> and \<open>includes\<close> on ASCII text. White space is
  what \<open>\s\<close> and \<open>trim\<close> treat as such within ASCII: space, tab, line feed, vertical tab,
  form feed and carriage return.
\<close>

definition upper_letters :: string where
  "upper_letters = ''ABCDEFGHIJKLMNOPQRSTUVWXYZ''"

definition lower_letters :: string where
  "lower_letters = ''abcdefghijklmnopqrstuvwxyz''"

definition is_upper :: "char \<Rightarrow> bool" where
  "is_upper c = (c \<in> set upper_letters)"

definition is_lower :: "char \<Rightarrow> bool" where
  "is_lower c = (c \<in> set lower_letters)"

definition is_letter :: "char \<Rightarrow> bool" where
  "is_letter c = (is_upper c \<or> is_lower c)"

definition is_alnum :: "char \<Rightarrow> bool" where
  "is_alnum c = (is_letter c \<or> is_digit c)"

definition is_space :: "char \<Rightarrow> bool" where
  "is_space c = (c \<in> set [CHR 0x09, CHR 0x0A, CHR 0x0B, CHR 0x0C, CHR 0x0D, CHR '' ''])"

definition upper_char :: "char \<Rightarrow> char" where
  "upper_char c = (case map_of (zip lower_letters upper_letters) c of Some u \<Rightarrow> u | None \<Rightarrow> c)"

definition lower_char :: "char \<Rightarrow> char" where
  "lower_char c = (case map_of (zip upper_letters lower_letters) c of Some l \<Rightarrow> l | None \<Rightarrow> c)"

definition toUpperCase :: "string \<Rightarrow> string" where
  "toUpperCase s = map upper_char s"

definition toLowerCase :: "string \<Rightarrow> string" where
  "toLowerCase s = map lower_char s"

definition trim :: "string \<Rightarrow> string" where
  "trim s = rev (dropWhile is_space (rev (dropWhile is_space s)))"

definition startsWith :: "string \<Rightarrow> string \<Rightarrow> bool" where
  "startsWith s p = (take (length p) s = p)"

fun str_includes :: "string \<Rightarrow> string \<Rightarrow> bool" where
  "str_includes [] sub = (sub = [])"
| "str_includes (c # cs) sub = (startsWith (c # cs) sub \<or> str_includes cs sub)"

section \<open>Training history and the duplicate guard\<close>

text \<open>
  One entry of a horse's training history. Race entries and routine training entries share
  the shape; \<open>isRace\<close> tags the race entries and only they carry a track. The display
  columns that the save route copies from the request (speeds, split times, positions) are
  read by none of the operations below and are left out.
\<close>

record entry =
  date :: string
  horse :: string
  etype :: string
  track :: "string option"
  surface :: string
  distance :: string
  isRace :: bool
  isWork :: bool
  comment_notes :: string

text \<open>
  \<open>allHorseDetailData\<close>: an object from horse keys to entry arrays, kept as the list of its
  \<open>Object.entries\<close> (for keys that are not array indices, insertion order). A stored session
  may lack the property altogether.
\<close>

type_synonym detail_data = "(string \<times> entry list) list"

record session =
  allHorseDetailData :: "detail_data option"

text \<open>
  \<open>horseName.toUpperCase().replace(/\s*\([A-Z]{2,3}\)$/g, '').trim()\<close>. The pattern is
  anchored at the end of the string, so it matches at most once: a final \<open>(XX)\<close> or
  \<open>(XXX)\<close> of capital letters together with all the white space in front of it (the
  leftmost match takes the whole white-space run).
\<close>

definition strip_country_code :: "string \<Rightarrow> string" where
  "strip_country_code s =
     (case rev s of
        c1 # a # b # c2 # rest \<Rightarrow>
          if c1 = CHR '')'' \<and> is_upper a \<and> is_upper b \<and> c2 = CHR ''(''
          then rev (dropWhile is_space rest)
          else (case rest of
                  c3 # rest' \<Rightarrow>
                    if c1 = CHR '')'' \<and> is_upper a \<and> is_upper b \<and> is_upper c2 \<and> c3 = CHR ''(''
                    then rev (dropWhile is_space rest')
                    else s
                | [] \<Rightarrow> s)
      | _ \<Rightarrow> s)"

definition normalizedName :: "string \<Rightarrow> string" where
  "normalizedName horseName = trim (strip_country_code (toUpperCase horseName))"

text \<open>The inner loop of \<open>checkDuplicateRace\<close>: \<open>for (const entry of entries)\<close>.\<close>

fun has_race_entry :: "entry list \<Rightarrow> string \<Rightarrow> string \<Rightarrow> bool" where
  "has_race_entry [] raceDate trk = False"
| "has_race_entry (e # entries) raceDate trk =
     (if isRace e \<and> date e = raceDate \<and> track e = Some trk then True
      else has_race_entry entries raceDate trk)"

text \<open>The outer loop: \<open>for (const [key, entries] of Object.entries(...))\<close>.\<close>

fun checkDuplicate_keys :: "detail_data \<Rightarrow> string \<Rightarrow> string \<Rightarrow> string \<Rightarrow> bool" where
  "checkDuplicate_keys [] name raceDate trk = False"
| "checkDuplicate_keys ((key, entries) # others) name raceDate trk =
     (let keyNormalized = toUpperCase key in
      if (keyNormalized = name \<or> str_includes keyNormalized name \<or> str_includes name keyNormalized)
         \<and> has_race_entry entries raceDate trk
      then True
      else checkDuplicate_keys others name raceDate trk)"

text \<open>
  \<open>checkDuplicateRace\<close>, given what \<open>getSession('arioneo-main-session')\<close> returns: no
  session, or a session without detail data, is never a duplicate.
\<close>

definition checkDuplicateRace :: "session option \<Rightarrow> string \<Rightarrow> string \<Rightarrow> string \<Rightarrow> bool" where
  "checkDuplicateRace sessionData horseName raceDate trk =
     (case sessionData of
        None \<Rightarrow> False
      | Some sd \<Rightarrow>
          (case allHorseDetailData sd of
             None \<Rightarrow> False
           | Some dd \<Rightarrow> checkDuplicate_keys dd (normalizedName horseName) raceDate trk))"

section \<open>Saving reviewed races: \<open>POST /api/race-charts/save\<close>\<close>











datatype http_error = Status400 string | Status404 string | Status500



text \<open>
  The detail data that \<open>checkDuplicateRace\<close> iterates over: empty when there is no
  session or the session has no detail data.
\<close>

definition stored_detail :: "session option \<Rightarrow> detail_data" where
  "stored_detail sessionData =
     (case sessionData of
        None \<Rightarrow> []
      | Some sd \<Rightarrow> (case allHorseDetailData sd of None \<Rightarrow> [] | Some dd \<Rightarrow> dd))"

text \<open>A stored history with one race entry, and a request for the same race.\<close>

definition blanco_race_entry :: entry where
  "blanco_race_entry =
     \<lparr> date = ''8/3/2024'', horse = ''Blanco'', etype = ''Race'', track = Some ''SAR'',
       surface = ''D'', distance = ''6F'', isRace = True, isWork = False, comment_notes = '''' \<rparr>"

definition blanco_history :: detail_data where
  "blanco_history = [(''Blanco'', [blanco_race_entry])]"


section \<open>Horse registry: merge, unmerge, rename\<close>

text \<open>
  One value of the \<open>horse-mapping\<close> object. The \<open>aliases\<close> array is missing on entries
  that were never merged; owner and country are empty strings when unset. The time stamps
  (\<open>addedAt\<close>, \<open>updatedAt\<close>) and \<open>renamedFrom\<close> are not read by any operation and are left
  out. The object itself is the list of its \<open>Object.entries\<close>: assigning to a new key
  appends, assigning to an existing key replaces the value where it stands, \<open>delete\<close>
  removes the pair (\<open>AList.update\<close> and \<open>AList.delete\<close>).
\<close>

record horse_entry =
  owner :: string
  country :: string
  isHistoric :: bool
  aliases :: "string list option"

type_synonym horse_mapping = "(string \<times> horse_entry) list"

definition aliases_of :: "horse_entry \<Rightarrow> string list" where
  "aliases_of data = (case aliases data of None \<Rightarrow> [] | Some a \<Rightarrow> a)"

definition fresh_entry :: horse_entry where
  "fresh_entry = \<lparr> owner = '''', country = '''', isHistoric = False, aliases = Some [] \<rparr>"

text \<open>
  \<open>Object.entries(mapping).find(([name, data]) => name !== primaryName && data.aliases &&
  data.aliases.includes(aliasName))\<close>
\<close>

definition existingPrimary :: "horse_mapping \<Rightarrow> string \<Rightarrow> string \<Rightarrow> (string \<times> horse_entry) option" where
  "existingPrimary mapping primaryName aliasName =
     List.find (\<lambda>(name, data). name \<noteq> primaryName \<and> aliasName \<in> set (aliases_of data)) mapping"

text \<open>The body of \<open>for (const aliasName of aliasNames)\<close> in \<open>POST /api/horses/merge\<close>.\<close>

definition merge_alias :: "string \<Rightarrow> horse_mapping \<Rightarrow> string \<Rightarrow> horse_mapping" where
  "merge_alias primaryName mapping aliasName =
     (if aliasName = primaryName then mapping
      else if existingPrimary mapping primaryName aliasName \<noteq> None then mapping
      else (case map_of mapping primaryName of
              None \<Rightarrow> mapping
            | Some p \<Rightarrow>
                let (p1, mapping1) =
                      (case map_of mapping aliasName of
                         None \<Rightarrow> (p, mapping)
                       | Some a \<Rightarrow>
                           (p\<lparr> owner := (if owner p = [] \<and> owner a \<noteq> [] then owner a else owner p),
                               country := (if country p = [] \<and> country a \<noteq> [] then country a else country p),
                               aliases := Some (aliases_of p @ aliases_of a) \<rparr>,
                            AList.delete aliasName mapping));
                    p2 = (if aliasName \<in> set (aliases_of p1) then p1
                          else p1\<lparr> aliases := Some (aliases_of p1 @ [aliasName]) \<rparr>)
                in AList.update primaryName p2 mapping1))"

text \<open>
  \<open>POST /api/horses/merge\<close>: the primary entry is created if missing and given an
  \<open>aliases\<close> array if it has none, then every alias name is folded in.
\<close>

definition merge :: "horse_mapping \<Rightarrow> string \<Rightarrow> string list \<Rightarrow> http_error + horse_mapping" where
  "merge mapping primaryName aliasNames =
     (if primaryName = [] \<or> aliasNames = []
      then Inl (Status400 ''Primary name and alias names are required'')
      else
        let mapping1 = (case map_of mapping primaryName of
                          None \<Rightarrow> AList.update primaryName fresh_entry mapping
                        | Some p \<Rightarrow>
                            (if aliases p = None
                             then AList.update primaryName (p\<lparr> aliases := Some [] \<rparr>) mapping
                             else mapping))
        in Inr (foldl (merge_alias primaryName) mapping1 aliasNames))"

text \<open>\<open>POST /api/horses/unmerge\<close>\<close>

definition unmerge :: "horse_mapping \<Rightarrow> string \<Rightarrow> string \<Rightarrow> http_error + horse_mapping" where
  "unmerge mapping primaryName aliasName =
     (if primaryName = [] \<or> aliasName = []
      then Inl (Status400 ''Primary name and alias name are required'')
      else (case map_of mapping primaryName of
              None \<Rightarrow> Inl (Status404 ''Primary horse not found'')
            | Some p \<Rightarrow>
                (case aliases p of
                   None \<Rightarrow> Inl (Status404 ''Alias not found for this horse'')
                 | Some al \<Rightarrow>
                     if aliasName \<in> set al
                     then Inr (AList.update aliasName fresh_entry
                                 (AList.update primaryName
                                    (p\<lparr> aliases := Some (filter (\<lambda>a. a \<noteq> aliasName) al) \<rparr>) mapping))
                     else Inl (Status404 ''Alias not found for this horse''))))"

text \<open>\<open>s.replace(/[^a-zA-Z0-9]/g, '').toLowerCase()\<close>\<close>

definition stripped :: "string \<Rightarrow> string" where
  "stripped s = toLowerCase (filter is_alnum s)"

text \<open>
  \<open>POST /api/horses/rename\<close>. \<open>oldKey\<close> is the first key equal to the old name up to
  letter case or up to non-alphanumeric characters; an empty-string key is falsy and counts
  as not found. The new entry takes the old entry's data and aliases, then the old key and
  the old name as given are pushed as aliases unless already present, and the old entry is
  deleted.
\<close>

definition rename :: "horse_mapping \<Rightarrow> string \<Rightarrow> string \<Rightarrow> http_error + horse_mapping" where
  "rename mapping oldName newName =
     (if oldName = [] \<or> newName = []
      then Inl (Status400 ''Old name and new name are required'')
      else if toLowerCase oldName = toLowerCase newName
      then Inl (Status400 ''New name must be different from the current name'')
      else
        let oldKey = (case List.find (\<lambda>k. toLowerCase k = toLowerCase oldName
                                          \<or> stripped k = stripped oldName) (map fst mapping) of
                        None \<Rightarrow> None
                      | Some k \<Rightarrow> if k = [] then None else Some k);
            oldData = (case oldKey of
                         None \<Rightarrow> fresh_entry
                       | Some k \<Rightarrow> (case map_of mapping k of None \<Rightarrow> fresh_entry | Some d \<Rightarrow> d))
        in (case List.find (\<lambda>k. toLowerCase k = toLowerCase newName) (map fst mapping) of
              Some existingNew \<Rightarrow>
                Inl (Status400 (''A horse named '' @ [CHR 0x22] @ existingNew @ [CHR 0x22]
                                @ '' already exists. Use Merge instead.''))
            | None \<Rightarrow>
                let al0 = aliases_of oldData;
                    al1 = (case oldKey of
                             None \<Rightarrow> al0
                           | Some k \<Rightarrow> if k \<in> set al0 then al0 else al0 @ [k]);
                    al2 = (if Some oldName \<noteq> oldKey \<and> oldName \<notin> set al1 then al1 @ [oldName] else al1);
                    mapping1 = AList.update newName
                                 \<lparr> owner = owner oldData, country = country oldData,
                                   isHistoric = isHistoric oldData, aliases = Some al2 \<rparr> mapping
                in Inr (case oldKey of None \<Rightarrow> mapping1 | Some k \<Rightarrow> AList.delete k mapping1)))"

text \<open>
  The alias partition invariant: no alias string is in the alias arrays of two different
  entries.
\<close>

fun alias_partition :: "horse_mapping \<Rightarrow> bool" where
  "alias_partition [] = True"
| "alias_partition ((name, data) # rest) =
     (list_all (\<lambda>(name', data'). set (aliases_of data) \<inter> set (aliases_of data') = {}) rest
      \<and> alias_partition rest)"

text \<open>A sequence of registry operations, stopping at the first one that is refused.\<close>

datatype registry_op =
    Merge string "string list"
  | Unmerge string string
  | Rename string string

fun apply_op :: "horse_mapping \<Rightarrow> registry_op \<Rightarrow> http_error + horse_mapping" where
  "apply_op mapping (Merge primaryName aliasNames) = merge mapping primaryName aliasNames"
| "apply_op mapping (Unmerge primaryName aliasName) = unmerge mapping primaryName aliasName"
| "apply_op mapping (Rename oldName newName) = rename mapping oldName newName"

fun apply_ops :: "horse_mapping \<Rightarrow> registry_op list \<Rightarrow> http_error + horse_mapping" where
  "apply_ops mapping [] = Inr mapping"
| "apply_ops mapping (op1 # ops) =
     (case apply_op mapping op1 of Inl err \<Rightarrow> Inl err | Inr mapping' \<Rightarrow> apply_ops mapping' ops)"

section \<open>Regular expressions\<close>

text \<open>
  The regular expressions of the source, as data, with a backtracking matcher that follows
  the matching order of JavaScript's \<open>RegExp\<close>: alternatives left to right, a greedy
  quantifier from the longest repetition down, a lazy one from the shortest up. Every
  quantifier in the source is applied to a single character class, so repetition is over
  classes. A matching state is the text before the current position (reversed), the text
  from it, and the groups captured so far; running an expression gives the states in which
  it can end, in the order the backtracking would try them.
\<close>

datatype rx =
    Eps
  | Cls "char \<Rightarrow> bool"
  | Seq rx rx
  | Alt rx rx
  | Greedy nat "nat option" "char \<Rightarrow> bool"
  | Lazy nat "nat option" "char \<Rightarrow> bool"
  | Grp nat rx
  | Bol
  | BolM
  | Eol
  | WordB

type_synonym captures = "(nat \<times> string) list"
type_synonym mstate = "string \<times> string \<times> captures"

definition is_word :: "char \<Rightarrow> bool" where
  "is_word c = (is_alnum c \<or> c = CHR ''_'')"

definition is_newline :: "char \<Rightarrow> bool" where
  "is_newline c = (c = CHR 0x0A \<or> c = CHR 0x0D)"

definition rep_counts :: "nat \<Rightarrow> nat option \<Rightarrow> (char \<Rightarrow> bool) \<Rightarrow> string \<Rightarrow> nat list" where
  "rep_counts lo hi p rest =
     (let n = length (takeWhile p rest)
      in [lo ..< Suc (case hi of None \<Rightarrow> n | Some h \<Rightarrow> min n h)])"

fun rx_run :: "rx \<Rightarrow> mstate \<Rightarrow> mstate list" where
  "rx_run Eps st = [st]"
| "rx_run (Cls p) (bef, rest, caps) =
     (case rest of [] \<Rightarrow> [] | c # cs \<Rightarrow> if p c then [(c # bef, cs, caps)] else [])"
| "rx_run (Seq r1 r2) st = concat (map (rx_run r2) (rx_run r1 st))"
| "rx_run (Alt r1 r2) st = rx_run r1 st @ rx_run r2 st"
| "rx_run (Greedy lo hi p) (bef, rest, caps) =
     map (\<lambda>k. (rev (take k rest) @ bef, drop k rest, caps)) (rev (rep_counts lo hi p rest))"
| "rx_run (Lazy lo hi p) (bef, rest, caps) =
     map (\<lambda>k. (rev (take k rest) @ bef, drop k rest, caps)) (rep_counts lo hi p rest)"
| "rx_run (Grp i r) (bef, rest, caps) =
     map (\<lambda>(bef', rest', caps'). (bef', rest', (i, rev (take (length bef' - length bef) bef')) # caps'))
         (rx_run r (bef, rest, caps))"
| "rx_run Bol (bef, rest, caps) = (if bef = [] then [(bef, rest, caps)] else [])"
| "rx_run BolM (bef, rest, caps) =
     (case bef of [] \<Rightarrow> [(bef, rest, caps)]
      | c # cs \<Rightarrow> if is_newline c then [(bef, rest, caps)] else [])"
| "rx_run Eol (bef, rest, caps) = (if rest = [] then [(bef, rest, caps)] else [])"
| "rx_run WordB (bef, rest, caps) =
     (if (case bef of [] \<Rightarrow> False | c # cs \<Rightarrow> is_word c)
         = (case rest of [] \<Rightarrow> False | c # cs \<Rightarrow> is_word c)
      then [] else [(bef, rest, caps)])"

text \<open>
  An unanchored search tries the start positions from left to right and takes the first
  way the expression matches at the first position where it matches at all.
\<close>

fun rx_search_from :: "rx \<Rightarrow> string \<Rightarrow> string \<Rightarrow> mstate option" where
  "rx_search_from r bef [] =
     (case rx_run r (bef, [], []) of [] \<Rightarrow> None | m # ms \<Rightarrow> Some m)"
| "rx_search_from r bef (c # cs) =
     (case rx_run r (bef, c # cs, []) of [] \<Rightarrow> rx_search_from r (c # bef) cs | m # ms \<Rightarrow> Some m)"

text \<open>
  \<open>text.match(re)\<close> for an expression without the \<open>g\<close> flag: \<open>None\<close> for \<open>null\<close>, otherwise
  the captured groups, group 0 being the whole match.
\<close>

definition rx_match :: "rx \<Rightarrow> string \<Rightarrow> captures option" where
  "rx_match r s =
     (case rx_search_from (Grp 0 r) [] s of None \<Rightarrow> None | Some (bef, rest, caps) \<Rightarrow> Some caps)"

definition rx_test :: "rx \<Rightarrow> string \<Rightarrow> bool" where
  "rx_test r s = (rx_match r s \<noteq> None)"

text \<open>A captured group; \<open>None\<close> is \<open>undefined\<close>.\<close>

definition grp :: "captures \<Rightarrow> nat \<Rightarrow> string option" where
  "grp caps i = map_of caps i"

text \<open>Literal text, case-sensitive and under the \<open>i\<close> flag.\<close>

fun lit :: "string \<Rightarrow> rx" where
  "lit [] = Eps"
| "lit (c # cs) = Seq (Cls (\<lambda>x. x = c)) (lit cs)"

fun lit_i :: "string \<Rightarrow> rx" where
  "lit_i [] = Eps"
| "lit_i (c # cs) = Seq (Cls (\<lambda>x. lower_char x = lower_char c)) (lit_i cs)"

text \<open>Sequences and alternatives of several expressions.\<close>

fun seqs :: "rx list \<Rightarrow> rx" where
  "seqs [] = Eps"
| "seqs [r] = r"
| "seqs (r # rs) = Seq r (seqs rs)"

fun alts :: "rx list \<Rightarrow> rx" where
  "alts [] = Seq (Cls (\<lambda>x. False)) Eps"
| "alts [r] = r"
| "alts (r # rs) = Alt r (alts rs)"

section \<open>Horse names: normalisation, resolution, display\<close>

text \<open>\<open>/\b(19|20)\d{2}\b/\<close> and \<open>/\b(\d{2})\b/\<close>\<close>

definition rx_fourDigitYear :: rx where
  "rx_fourDigitYear =
     seqs [WordB, Grp 1 (Alt (lit ''19'') (lit ''20'')), Greedy 2 (Some 2) is_digit, WordB]"

definition rx_twoDigitYear :: rx where
  "rx_twoDigitYear = seqs [WordB, Grp 1 (Greedy 2 (Some 2) is_digit), WordB]"

text \<open>\<open>s.slice(-2)\<close>\<close>

definition slice_last2 :: "string \<Rightarrow> string" where
  "slice_last2 s = drop (length s - 2) s"

text \<open>A group that took part in the match; an absent one reads as the empty string.\<close>

definition grp_text :: "captures \<Rightarrow> nat \<Rightarrow> string" where
  "grp_text caps i = (case grp caps i of None \<Rightarrow> [] | Some s \<Rightarrow> s)"

definition normalizeHorseNameForMatch :: "string \<Rightarrow> string" where
  "normalizeHorseNameForMatch name =
     (if name = [] then []
      else
        let letters = toLowerCase (filter is_letter name);
            year = (case rx_match rx_fourDigitYear name of
                      Some fourDigitYear \<Rightarrow> slice_last2 (grp_text fourDigitYear 0)
                    | None \<Rightarrow>
                        (case rx_match rx_twoDigitYear name of
                           Some twoDigitYear \<Rightarrow> grp_text twoDigitYear 1
                         | None \<Rightarrow> []))
        in letters @ year)"

text \<open>
  The test that \<open>resolveHorseAlias\<close> applies to a key and to an alias: equal to the name in
  lower case (the name trimmed), equal after removing every non-alphanumeric character, or
  equal after normalisation.
\<close>

definition name_matches :: "string \<Rightarrow> string \<Rightarrow> bool" where
  "name_matches horseName k =
     (toLowerCase k = trim (toLowerCase horseName)
      \<or> stripped k = stripped horseName
      \<or> normalizeHorseNameForMatch k = normalizeHorseNameForMatch horseName)"

text \<open>
  The loop over \<open>Object.entries(horseMapping)\<close> that looks for the name among the aliases.
  \<open>aliases.find\<close> gives the first matching alias, and an empty string is falsy.
\<close>

fun resolve_by_alias :: "string \<Rightarrow> horse_mapping \<Rightarrow> string option" where
  "resolve_by_alias horseName [] = None"
| "resolve_by_alias horseName ((primaryName, data) # rest) =
     (case List.find (name_matches horseName) (aliases_of data) of
        Some aliasMatch \<Rightarrow>
          if aliasMatch \<noteq> [] then Some primaryName else resolve_by_alias horseName rest
      | None \<Rightarrow> resolve_by_alias horseName rest)"

definition resolveHorseAlias :: "string \<Rightarrow> horse_mapping \<Rightarrow> string" where
  "resolveHorseAlias horseName horseMapping =
     (if horseName = [] then horseName
      else
        let byAlias = (case resolve_by_alias horseName horseMapping of
                         Some primaryName \<Rightarrow> primaryName
                       | None \<Rightarrow> horseName)
        in (case List.find (name_matches horseName) (map fst horseMapping) of
              Some directMatch \<Rightarrow> if directMatch \<noteq> [] then directMatch else byAlias
            | None \<Rightarrow> byAlias))"










section \<open>Document metadata: \<open>getTrackAbbreviation\<close> and \<open>extractRaceMetadata\<close>\<close>

text \<open>The table \<open>trackAbbreviations\<close>, in source order.\<close>

definition trackAbbreviations :: "(string \<times> string) list" where
  "trackAbbreviations =
     [(''churchill downs'', ''CD''), (''churchill'', ''CD''), (''woodbine'', ''WO''),
      (''santa anita'', ''SA''), (''belmont'', ''BEL''), (''belmont park'', ''BEL''),
      (''saratoga'', ''SAR''), (''keeneland'', ''KEE''), (''gulfstream'', ''GP''),
      (''gulfstream park'', ''GP''), (''del mar'', ''DMR''), (''arlington'', ''AP''),
      (''oaklawn'', ''OP''), (''oaklawn park'', ''OP''), (''aqueduct'', ''AQU''),
      (''laurel'', ''LRL''), (''laurel park'', ''LRL''), (''pimlico'', ''PIM''),
      (''monmouth'', ''MTH''), (''monmouth park'', ''MTH''), (''tampa bay'', ''TAM''),
      (''tampa bay downs'', ''TAM''), (''fair grounds'', ''FG''), (''los alamitos'', ''LA''),
      (''golden gate'', ''GG''), (''golden gate fields'', ''GG''), (''turfway'', ''TP''),
      (''turfway park'', ''TP''), (''parx'', ''PRX''), (''penn national'', ''PEN''),
      (''charles town'', ''CT''), (''remington'', ''RP''), (''remington park'', ''RP''),
      (''lone star'', ''LS''), (''lone star park'', ''LS''), (''indiana grand'', ''IND''),
      (''canterbury'', ''CBY''), (''ellis park'', ''ELP''), (''colonial downs'', ''CNL''),
      (''horseshoe indianapolis'', ''IND'')]"

text \<open>\<open>trackName.split(' ').filter(w => w.length > 0)\<close>\<close>

fun split_spaces :: "string \<Rightarrow> string \<Rightarrow> string list" where
  "split_spaces cur [] = (if cur = [] then [] else [cur])"
| "split_spaces cur (c # cs) =
     (if c = CHR '' '' then (if cur = [] then split_spaces [] cs else cur # split_spaces [] cs)
      else split_spaces (cur @ [c]) cs)"

definition getTrackAbbreviation :: "string \<Rightarrow> string" where
  "getTrackAbbreviation trackName =
     (if trackName = [] then ''UNK''
      else
        let lower = trim (toLowerCase trackName) in
        (case map_of trackAbbreviations lower of
           Some abbrev \<Rightarrow> abbrev
         | None \<Rightarrow>
             (case List.find (\<lambda>(name, abbrev). str_includes lower name \<or> str_includes name lower)
                     trackAbbreviations of
                Some (name, abbrev) \<Rightarrow> abbrev
              | None \<Rightarrow>
                  (case split_spaces [] trackName of
                     w0 # w1 # ws \<Rightarrow> toUpperCase (take 1 w0 @ take 1 w1)
                   | _ \<Rightarrow> toUpperCase (take 3 trackName)))))"

text \<open>The array \<open>trackNames\<close> of \<open>extractRaceMetadata\<close>, in source order.\<close>

definition trackNames :: "string list" where
  "trackNames =
     [''Churchill Downs'', ''Woodbine'', ''Santa Anita'', ''Belmont'', ''Saratoga'',
      ''Keeneland'', ''Gulfstream'', ''Del Mar'', ''Arlington'', ''Oaklawn'',
      ''Aqueduct'', ''Laurel'', ''Pimlico'', ''Monmouth'', ''Tampa Bay'', ''Fair Grounds'',
      ''Los Alamitos'', ''Golden Gate'', ''Turfway'', ''Parx'', ''Penn National'',
      ''Charles Town'', ''Remington'', ''Lone Star'', ''Indiana Grand'', ''Canterbury'',
      ''Ellis Park'', ''Colonial Downs'', ''Horseshoe Indianapolis'']"

text \<open>
  \<open>new RegExp(trackName.replace(' ', '\\s+'), 'i')\<close>: the first space of the name becomes
  \<open>\s+\<close>, everything else is literal.
\<close>

fun rx_trackName :: "string \<Rightarrow> rx" where
  "rx_trackName [] = Eps"
| "rx_trackName (c # cs) =
     (if c = CHR '' '' then Seq (Greedy 1 None is_space) (lit_i cs)
      else Seq (Cls (\<lambda>x. lower_char x = lower_char c)) (rx_trackName cs))"

text \<open>
  Numbers that the distance arithmetic can produce. A finite value is kept as an exact
  rational; the source computes in IEEE doubles, with which the exact value agrees whenever
  every intermediate result is representable (as for the halves, quarters, eighths and
  sixteenths of racing distances). Dividing by a zero denominator gives \<open>Infinity\<close>, or
  \<open>NaN\<close> for \<open>0/0\<close>.
\<close>

datatype jsnumber = Fin rat | PosInfinity | NotANumber

definition num_of_int :: "jsnum \<Rightarrow> jsnumber" where
  "num_of_int n = (case n of NaN \<Rightarrow> NotANumber | Num i \<Rightarrow> Fin (of_int i))"

text \<open>\<open>whole + (numerator / denominator)\<close> on the results of three \<open>parseInt\<close> calls.\<close>

definition mixed_fraction :: "jsnum \<Rightarrow> jsnum \<Rightarrow> jsnum \<Rightarrow> jsnumber" where
  "mixed_fraction whole numerator denominator =
     (case (whole, numerator, denominator) of
        (Num w, Num n, Num d) \<Rightarrow>
          if d = 0 then (if n = 0 then NotANumber else PosInfinity)
          else Fin (of_int w + of_int n / of_int d)
      | _ \<Rightarrow> NotANumber)"

text \<open>\<open>Math.round(miles * 8 * 10) / 10\<close>; \<open>Math.round\<close> rounds halves upwards.\<close>

definition round_furlongs :: "jsnumber \<Rightarrow> jsnumber" where
  "round_furlongs miles =
     (case miles of
        Fin q \<Rightarrow> Fin (of_int (floor (q * 8 * 10 + 1 / 2)) / 10)
      | PosInfinity \<Rightarrow> PosInfinity
      | NotANumber \<Rightarrow> NotANumber)"

definition times8 :: "jsnumber \<Rightarrow> jsnumber" where
  "times8 miles = (case miles of Fin q \<Rightarrow> Fin (q * 8) | other \<Rightarrow> other)"

text \<open>\<open>parseFloat\<close> on a capture of \<open>\d+(?:\.\d+)?\<close>: integer digits, optionally a point and fraction digits.\<close>

definition digits_value :: "string \<Rightarrow> nat" where
  "digits_value ds = foldl (\<lambda>a c. 10 * a + nat (digit_val c)) 0 ds"

definition parseFloat :: "string \<Rightarrow> jsnumber" where
  "parseFloat s =
     (let ip = takeWhile is_digit s; after = drop (length ip) s in
      if ip = [] then NotANumber
      else (case after of
              c # fracPart \<Rightarrow>
                if c = CHR ''.''
                then (let fp = takeWhile is_digit fracPart
                      in Fin (of_nat (digits_value ip) + of_nat (digits_value fp) / 10 ^ length fp))
                else Fin (of_nat (digits_value ip))
            | [] \<Rightarrow> Fin (of_nat (digits_value ip))))"

text \<open>The distance patterns, all with the \<open>i\<close> flag.\<close>

definition digits1 :: rx where
  "digits1 = Greedy 1 None is_digit"

definition rx_mixedMiles :: rx where
  "rx_mixedMiles =
     seqs [Grp 1 digits1, Greedy 1 None is_space, Grp 2 digits1, lit ''/'', Grp 3 digits1,
           Greedy 0 None is_space, lit_i ''Mile'', Greedy 0 (Some 1) (\<lambda>c. lower_char c = CHR ''s'')]"

definition rx_simpleMiles :: rx where
  "rx_simpleMiles =
     seqs [Grp 1 digits1, Greedy 0 None is_space, lit_i ''Mile'',
           Greedy 0 (Some 1) (\<lambda>c. lower_char c = CHR ''s''), Alt (Cls is_space) Eol]"

definition rx_mixedFurlongs :: rx where
  "rx_mixedFurlongs =
     seqs [Grp 1 digits1, Greedy 1 None is_space, Grp 2 digits1, lit ''/'', Grp 3 digits1,
           Greedy 0 None is_space, lit_i ''Furlong'']"

definition rx_decimalFurlongs :: rx where
  "rx_decimalFurlongs =
     seqs [Grp 1 (Seq digits1 (Alt (Seq (lit ''.'') digits1) Eps)),
           Greedy 0 None is_space, lit_i ''Furlong'']"

definition rx_wordFurlongs :: rx where
  "rx_wordFurlongs =
     seqs [Grp 1 (alts [digits1, lit_i ''Seven'', lit_i ''Six'', lit_i ''Five'', lit_i ''Eight'',
                        lit_i ''Nine'']),
           Greedy 0 None is_space, lit_i ''Furlong'']"

definition wordToNumber :: "(string \<times> int) list" where
  "wordToNumber = [(''five'', 5), (''six'', 6), (''seven'', 7), (''eight'', 8), (''nine'', 9)]"

text \<open>
  The distance text \<open>`${distanceInFurlongs}F`\<close> is kept as the number it is built from;
  \<open>Unknown\<close> is the initial \<open>'Unknown'\<close>.
\<close>

datatype distance_text = Unknown | FurlongsText jsnumber

text \<open>The distance step: the pair \<open>(distanceInFurlongs, distanceText)\<close>.\<close>

definition extract_distance :: "string \<Rightarrow> jsnumber \<times> distance_text" where
  "extract_distance text =
     (case rx_match rx_mixedMiles text of
        Some milesMatch \<Rightarrow>
          let miles = mixed_fraction (parseInt (grp_text milesMatch 1))
                        (parseInt (grp_text milesMatch 2)) (parseInt (grp_text milesMatch 3));
              distanceInFurlongs = round_furlongs miles
          in (distanceInFurlongs, FurlongsText distanceInFurlongs)
      | None \<Rightarrow>
          (case rx_match rx_simpleMiles text of
             Some milesMatch \<Rightarrow>
               let distanceInFurlongs = times8 (num_of_int (parseInt (grp_text milesMatch 1)))
               in (distanceInFurlongs, FurlongsText distanceInFurlongs)
           | None \<Rightarrow>
               (case rx_match rx_mixedFurlongs text of
                  Some furlongMatch \<Rightarrow>
                    let distanceInFurlongs =
                          mixed_fraction (parseInt (grp_text furlongMatch 1))
                            (parseInt (grp_text furlongMatch 2)) (parseInt (grp_text furlongMatch 3))
                    in (distanceInFurlongs, FurlongsText distanceInFurlongs)
                | None \<Rightarrow>
                    (case rx_match rx_decimalFurlongs text of
                       Some furlongMatch \<Rightarrow>
                         let distanceInFurlongs = parseFloat (grp_text furlongMatch 1)
                         in (distanceInFurlongs, FurlongsText distanceInFurlongs)
                     | None \<Rightarrow>
                         (case rx_match rx_wordFurlongs text of
                            Some furlongMatch \<Rightarrow>
                              let distanceInFurlongs =
                                    (case map_of wordToNumber (toLowerCase (grp_text furlongMatch 1)) of
                                       Some n \<Rightarrow> Fin (of_int n)
                                     | None \<Rightarrow> num_of_int (parseInt (grp_text furlongMatch 1)))
                              in (case distanceInFurlongs of
                                    Fin q \<Rightarrow>
                                      if q = 0 then (distanceInFurlongs, Unknown)
                                      else (distanceInFurlongs, FurlongsText distanceInFurlongs)
                                  | PosInfinity \<Rightarrow> (distanceInFurlongs, FurlongsText distanceInFurlongs)
                                  | NotANumber \<Rightarrow> (distanceInFurlongs, Unknown))
                          | None \<Rightarrow> (Fin 0, Unknown))))))"

text \<open>One or more, and zero or more, white-space characters: \<open>\s+\<close> and \<open>\s*\<close>.\<close>

definition ws1 :: rx where
  "ws1 = Greedy 1 None is_space"

definition ws0 :: rx where
  "ws0 = Greedy 0 None is_space"

text \<open>The surface patterns.\<close>

definition rx_innerTurf :: rx where
  "rx_innerTurf = seqs [lit_i ''inner'', ws1, lit_i ''turf'']"

definition rx_turf :: rx where
  "rx_turf = lit_i ''turf''"

definition rx_synthetic :: rx where
  "rx_synthetic = lit_i ''synthetic''"

definition rx_allWeather :: rx where
  "rx_allWeather =
     seqs [lit_i ''all'', Greedy 0 (Some 1) (\<lambda>c. is_space c \<or> c = CHR ''-''), lit_i ''weather'']"

definition rx_dirt :: rx where
  "rx_dirt = lit_i ''dirt''"

definition detect_surface :: "string \<Rightarrow> string" where
  "detect_surface text =
     (if rx_test rx_innerTurf text \<or> rx_test rx_turf text then ''T''
      else if rx_test rx_synthetic text \<or> rx_test rx_allWeather text then ''AWT''
      else if rx_test rx_dirt text then ''D''
      else ''D'')"

text \<open>
  The loop over \<open>trackNames\<close>: the first name whose pattern occurs in the text gives the
  track, and \<open>'UNK'\<close> remains when none does.
\<close>

fun detect_track :: "string list \<Rightarrow> string \<Rightarrow> string" where
  "detect_track [] text = ''UNK''"
| "detect_track (trackName # names) text =
     (if rx_test (rx_trackName trackName) text then getTrackAbbreviation trackName
      else detect_track names text)"

text \<open>
  The race-name pattern: a track name, a line break, then a capitalised phrase ending in a
  stakes word. Under the \<open>i\<close> flag \<open>[A-Z]\<close> matches any letter.
\<close>

definition stakes_tracks :: "string list" where
  "stakes_tracks =
     [''Saratoga'', ''Churchill'', ''Belmont'', ''Keeneland'', ''Gulfstream'', ''Del Mar'',
      ''Santa Anita'', ''Aqueduct'', ''Woodbine'', ''Oaklawn'', ''Tampa Bay'', ''Fair Grounds'',
      ''Monmouth'', ''Laurel'', ''Parx'', ''Pimlico'']"

definition stakes_words :: "string list" where
  "stakes_words =
     [''S.'', ''Stakes'', ''H.'', ''Handicap'', ''Derby'', ''Oaks'', ''Cup'', ''Futurity'',
      ''Classic'', ''Mile'', ''Sprint'', ''Distaff'', ''Breeders'' @ [CHR 0x27]]"

definition race_name_char :: "char \<Rightarrow> bool" where
  "race_name_char c =
     (is_letter c \<or> c = CHR 0x27 \<or> is_space c \<or> c = CHR ''-'' \<or> c = CHR ''.'')"

definition rx_stakesName :: rx where
  "rx_stakesName =
     seqs [alts (map lit_i stakes_tracks), ws0, Cls (\<lambda>c. c = CHR 0x0A), ws0,
           Grp 1 (seqs [Cls is_letter, Greedy 1 None race_name_char, alts (map lit_i stakes_words)])]"

text \<open>The race-type patterns, in the order in which the source tests them.\<close>

definition rx_allowanceOptionalClaiming :: rx where
  "rx_allowanceOptionalClaiming =
     seqs [lit_i ''Allowance'', ws1, lit_i ''Optional'', ws1, lit_i ''Claiming'']"

definition rx_optionalClaiming :: rx where
  "rx_optionalClaiming = seqs [lit_i ''Optional'', ws1, lit_i ''Claiming'']"

definition rx_maidenSpecialWeight :: rx where
  "rx_maidenSpecialWeight = seqs [lit_i ''Maiden'', ws1, lit_i ''Special'', ws1, lit_i ''Weight'']"

definition grade_I1 :: "char \<Rightarrow> bool" where
  "grade_I1 c = (c = CHR ''I'' \<or> c = CHR ''i'' \<or> c = CHR ''1'')"

definition rx_grade :: rx where
  "rx_grade =
     seqs [lit_i ''Grade'', ws0, Grp 1 (Alt (Greedy 1 (Some 3) grade_I1) (Greedy 1 None is_digit))]"

definition rx_stakesYo :: rx where
  "rx_stakesYo = seqs [WordB, lit_i ''Stakes'', ws1, Greedy 1 None is_digit, lit_i ''yo'']"

definition rx_stakesLine :: rx where
  "rx_stakesLine = seqs [BolM, ws0, lit ''Stakes'', WordB]"

definition rx_maidenClaiming :: rx where
  "rx_maidenClaiming = seqs [lit_i ''Maiden'', ws1, lit_i ''Claiming'']"

definition rx_starterAllowance :: rx where
  "rx_starterAllowance = seqs [lit_i ''Starter'', ws1, lit_i ''Allowance'']"

definition rx_allowance :: rx where
  "rx_allowance = seqs [WordB, lit_i ''Allowance'', WordB]"

definition rx_claimingPrice :: rx where
  "rx_claimingPrice = seqs [lit_i ''Claiming'', ws1, lit_i ''Price'', ws0, lit ''$'']"

definition rx_claimingDollar :: rx where
  "rx_claimingDollar = seqs [WordB, lit_i ''Claiming'', ws1, lit ''$'', Cls is_digit]"

definition rx_handicap :: rx where
  "rx_handicap = seqs [WordB, lit_i ''Handicap'', WordB]"

text \<open>\<open>raceName\<close>: the trimmed first group of the race-name pattern, or the empty string.\<close>

definition extract_raceName :: "string \<Rightarrow> string" where
  "extract_raceName text =
     (case rx_match rx_stakesName text of
        Some stakesNameMatch \<Rightarrow> trim (grp_text stakesNameMatch 1)
      | None \<Rightarrow> [])"

text \<open>The grade of a graded stakes: \<open>I\<close>, \<open>II\<close>, \<open>III\<close> become digits, anything else is kept.\<close>

definition grade_code :: "string \<Rightarrow> string" where
  "grade_code grade =
     (if grade = ''I'' then ''1'' else if grade = ''II'' then ''2''
      else if grade = ''III'' then ''3'' else grade)"

text \<open>The \<open>if\<close> / \<open>else if\<close> chain that sets \<open>raceType\<close>.\<close>

definition extract_raceType :: "string \<Rightarrow> string" where
  "extract_raceType text =
     (let raceName = extract_raceName text in
      if rx_test rx_allowanceOptionalClaiming text \<or> rx_test rx_optionalClaiming text then ''AOC''
      else if rx_test rx_maidenSpecialWeight text then ''MSW''
      else if rx_test rx_grade text then
        (case rx_match rx_grade text of
           Some gradeMatch \<Rightarrow> ''G'' @ grade_code (grp_text gradeMatch 1)
         | None \<Rightarrow> ''UNK'')
      else if raceName \<noteq> [] \<or> rx_test rx_stakesYo text \<or> rx_test rx_stakesLine text then ''STK''
      else if rx_test rx_maidenClaiming text then ''MCL''
      else if rx_test rx_starterAllowance text then ''STR''
      else if rx_test rx_allowance text \<and> \<not> rx_test rx_claimingPrice text then ''ALW''
      else if rx_test rx_claimingPrice text \<or> rx_test rx_claimingDollar text then ''CLM''
      else if rx_test rx_handicap text then ''HCP''
      else ''UNK'')"

text \<open>
  What \<open>extractRaceMetadata\<close> returns, without the race date (no property below reads it).
  A track resolved to \<open>TP\<close> overrides the detected surface.
\<close>

record race_metadata =
  md_track :: string
  md_surface :: string
  md_raceType :: string
  md_raceName :: string
  md_distance :: distance_text
  md_distanceInFurlongs :: jsnumber

definition extractRaceMetadata :: "string \<Rightarrow> race_metadata" where
  "extractRaceMetadata text =
     (let surface0 = detect_surface text;
          (distanceInFurlongs, distanceText) = extract_distance text;
          trk = detect_track trackNames text;
          surface1 = (if trk = ''TP'' then ''AWT'' else surface0)
      in \<lparr> md_track = trk, md_surface = surface1, md_raceType = extract_raceType text,
           md_raceName = extract_raceName text, md_distance = distanceText,
           md_distanceInFurlongs = distanceInFurlongs \<rparr>)"

section \<open>Final time of a horse row: \<open>RaceChartParser.parseHorseFromChart\<close>\<close>

text \<open>
  \<open>text.match(re)\<close> for an expression with the \<open>g\<close> flag: the matched substrings from left
  to right, each search starting where the previous match ended (one character further
  after an empty match); \<open>null\<close> is the empty list, as after \<open>|| []\<close>. \<open>skip\<close> counts the
  characters of the current position that still belong to the previous match.
\<close>

definition matched_text :: "string \<Rightarrow> mstate \<Rightarrow> string" where
  "matched_text bef m = (case m of (bef', rest', caps) \<Rightarrow> rev (take (length bef' - length bef) bef'))"

fun rx_match_all_from :: "rx \<Rightarrow> string \<Rightarrow> string \<Rightarrow> nat \<Rightarrow> string list" where
  "rx_match_all_from r bef [] skip =
     (if skip > 0 then []
      else (case rx_run r (bef, [], []) of [] \<Rightarrow> [] | m # ms \<Rightarrow> [matched_text bef m]))"
| "rx_match_all_from r bef (c # cs) skip =
     (if skip > 0 then rx_match_all_from r (c # bef) cs (skip - 1)
      else (case rx_run r (bef, c # cs, []) of
              [] \<Rightarrow> rx_match_all_from r (c # bef) cs 0
            | m # ms \<Rightarrow>
                matched_text bef m # rx_match_all_from r (c # bef) cs (length (matched_text bef m) - 1)))"

definition rx_match_all :: "rx \<Rightarrow> string \<Rightarrow> string list" where
  "rx_match_all r s = rx_match_all_from r [] s 0"

text \<open>\<open>/[12]:\d{2}\.\d{2}/g\<close>\<close>

definition rx_minutesTime :: rx where
  "rx_minutesTime =
     seqs [Cls (\<lambda>c. c = CHR ''1'' \<or> c = CHR ''2''), lit '':'', Greedy 2 (Some 2) is_digit,
           lit ''.'', Greedy 2 (Some 2) is_digit]"

text \<open>\<open>haystack.indexOf(needle)\<close>: the first index at which the needle occurs, or \<open>-1\<close>.\<close>

fun indexOf_from :: "string \<Rightarrow> string \<Rightarrow> nat \<Rightarrow> int" where
  "indexOf_from [] needle i = (if needle = [] then int i else -1)"
| "indexOf_from (c # cs) needle i =
     (if startsWith (c # cs) needle then int i else indexOf_from cs needle (Suc i))"

definition indexOf :: "string \<Rightarrow> string \<Rightarrow> int" where
  "indexOf haystack needle = indexOf_from haystack needle 0"

text \<open>
  \<open>horseLine.substring(horseIndex + horseName.length)\<close>, where a negative argument of
  \<open>substring\<close> counts as 0.
\<close>

definition afterHorse :: "string \<Rightarrow> string \<Rightarrow> string" where
  "afterHorse horseLine horseName =
     (let horseIndex = indexOf (toLowerCase horseLine) (toLowerCase horseName)
      in drop (nat (horseIndex + int (length horseName))) horseLine)"

definition allMinutesTimes :: "string \<Rightarrow> string list" where
  "allMinutesTimes afterHorseText = rx_match_all rx_minutesTime afterHorseText"

text \<open>\<open>allMinutesTimes.length > 0 ? allMinutesTimes[0] : '-'\<close>\<close>

definition finalTime :: "string \<Rightarrow> string \<Rightarrow> string" where
  "finalTime horseLine horseName =
     (case allMinutesTimes (afterHorse horseLine horseName) of
        [] \<Rightarrow> ''-''
      | t # ts \<Rightarrow> t)"

text \<open>The shape \<open>M:SS.SS\<close> with \<open>M\<close> one of 1 and 2, and a text that begins with it.\<close>

definition is_minutes_time :: "string \<Rightarrow> bool" where
  "is_minutes_time t =
     (case t of
        [m, c, s1, s2, p, h1, h2] \<Rightarrow>
          (m = CHR ''1'' \<or> m = CHR ''2'') \<and> c = CHR '':'' \<and> is_digit s1 \<and> is_digit s2
          \<and> p = CHR ''.'' \<and> is_digit h1 \<and> is_digit h2
      | _ \<Rightarrow> False)"

definition time_starts :: "string \<Rightarrow> bool" where
  "time_starts s = is_minutes_time (take 7 s)"

text \<open>
  A lower bound on how many characters of a kind \<open>P\<close> every match of an expression
  consumes (used to show that an expression cannot match a text with too few of them).
\<close>

fun rx_min_count :: "(char \<Rightarrow> bool) \<Rightarrow> rx \<Rightarrow> nat" where
  "rx_min_count P Eps = 0"
| "rx_min_count P (Cls p) = (if (\<forall>c. p c \<longrightarrow> P c) then 1 else 0)"
| "rx_min_count P (Seq r1 r2) = rx_min_count P r1 + rx_min_count P r2"
| "rx_min_count P (Alt r1 r2) = min (rx_min_count P r1) (rx_min_count P r2)"
| "rx_min_count P (Greedy lo hi p) = (if (\<forall>c. p c \<longrightarrow> P c) then lo else 0)"
| "rx_min_count P (Lazy lo hi p) = (if (\<forall>c. p c \<longrightarrow> P c) then lo else 0)"
| "rx_min_count P (Grp i r) = rx_min_count P r"
| "rx_min_count P Bol = 0"
| "rx_min_count P BolM = 0"
| "rx_min_count P Eol = 0"
| "rx_min_count P WordB = 0"

text \<open>The first way, in backtracking order, in which an expression matches from a state.\<close>

definition rx_hd :: "rx \<Rightarrow> mstate \<Rightarrow> mstate option" where
  "rx_hd r st = (case rx_run r st of [] \<Rightarrow> None | m # ms \<Rightarrow> Some m)"

text \<open>
  The race-class resolution as an ordered list of rules, the first rule whose condition
  holds giving the class: allowance-optional-claiming, maiden-special-weight, graded
  stakes, named stakes, maiden claiming, starter allowance, allowance, claiming with an
  explicit price, handicap. The allowance rule carries the source's guard that no
  \<open>Claiming Price $\<close> occurs.
\<close>

fun first_rule :: "(bool \<times> string) list \<Rightarrow> string" where
  "first_rule [] = ''UNK''"
| "first_rule ((holds, cls) # rules) = (if holds then cls else first_rule rules)"

definition race_class_rules :: "string \<Rightarrow> (bool \<times> string) list" where
  "race_class_rules text =
     [(rx_test rx_allowanceOptionalClaiming text \<or> rx_test rx_optionalClaiming text, ''AOC''),
      (rx_test rx_maidenSpecialWeight text, ''MSW''),
      (rx_test rx_grade text,
         (case rx_match rx_grade text of
            Some gradeMatch \<Rightarrow> ''G'' @ grade_code (grp_text gradeMatch 1)
          | None \<Rightarrow> ''UNK'')),
      (extract_raceName text \<noteq> [] \<or> rx_test rx_stakesYo text \<or> rx_test rx_stakesLine text, ''STK''),
      (rx_test rx_maidenClaiming text, ''MCL''),
      (rx_test rx_starterAllowance text, ''STR''),
      (rx_test rx_allowance text \<and> \<not> rx_test rx_claimingPrice text, ''ALW''),
      (rx_test rx_claimingPrice text \<or> rx_test rx_claimingDollar text, ''CLM''),
      (rx_test rx_handicap text, ''HCP'')]"

text \<open>The condition "one of the four patterns tested before maiden claiming matches".\<close>

definition higher_than_maidenClaiming :: "string \<Rightarrow> bool" where
  "higher_than_maidenClaiming text =
     (rx_test rx_allowanceOptionalClaiming text \<or> rx_test rx_optionalClaiming text
      \<or> rx_test rx_maidenSpecialWeight text \<or> rx_test rx_grade text
      \<or> extract_raceName text \<noteq> [] \<or> rx_test rx_stakesYo text \<or> rx_test rx_stakesLine text)"



section \<open>Proofs: position digit disambiguator\<close>

lemma parseInt_11: "parseInt ''11'' = Num 11"
  by (simp add: parseInt_def is_digit_def digit_val_def)

lemma parseInt_12: "parseInt ''12'' = Num 12"
  by (simp add: parseInt_def is_digit_def digit_val_def)

lemma drop_last_one: "i < length xs \<Longrightarrow> \<not> i + 1 < length xs \<Longrightarrow> drop i xs = [xs ! i]"
  using Cons_nth_drop_Suc[of i xs] by simp

lemma substring_two:
  "Suc i < length xs \<Longrightarrow> substring xs i (Suc (Suc i)) = [xs ! i, xs ! Suc i]"
proof -
  assume a: "Suc i < length xs"
  then have "drop i xs = xs ! i # xs ! Suc i # drop (Suc (Suc i)) xs"
    by (simp add: Cons_nth_drop_Suc[symmetric])
  then show ?thesis by (simp add: substring_def numeral_2_eq_2)
qed

text \<open>
  Loop invariant: from index \<open>i\<close> with \<open>positions\<close> collected so far, the loop appends
  the scan of the remaining digits.
\<close>

lemma parsePositions_loop_scan:
  "parsePositions_loop ds e i ps =
     ps @ disambiguate_scan (e = 0 \<or> int (length ds) > e) (drop i ds)"
proof (induction ds e i ps rule: parsePositions_loop.induct)
  case (1 ds e i ps)
  show ?case
  proof (cases "i < length ds")
    case False
    then show ?thesis by (simp add: parsePositions_loop.simps[of ds e i ps])
  next
    case True
    note lt = this
    show ?thesis
    proof (cases "i + 1 < length ds")
      case False
      with lt have d: "drop i ds = [ds ! i]" by (simp add: drop_last_one)
      from False lt have "drop (i + 1) ds = []" by simp
      with lt False 1 d show ?thesis
        by (simp add: parsePositions_loop.simps[of ds e i ps])
    next
      case True
      then have d1: "drop (Suc i) ds = ds ! Suc i # drop (Suc (Suc i)) ds"
        by (simp add: Cons_nth_drop_Suc)
      with lt have d: "drop i ds = ds ! i # ds ! Suc i # drop (Suc (Suc i)) ds"
        by (metis Cons_nth_drop_Suc)
      from lt True 1 show ?thesis
        by (auto simp add: parsePositions_loop.simps[of ds e i ps] d d1 substring_two
            parseInt_11 parseInt_12 digit_val_def)
    qed
  qed
qed

lemma parsePositions_refines: "parsePositions ds e = disambiguate ds e"
proof (cases "int (length ds) = e")
  case True
  then show ?thesis
    by (cases "e > 0")
      (auto simp: parsePositions_def disambiguate_def parsePositions_loop.simps[of "[]"])
next
  case False
  then have "(e = 0 \<or> int (length ds) > e) = (int (length ds) > e)" by auto
  with False show ?thesis
    by (simp add: parsePositions_def disambiguate_def parsePositions_loop_scan)
qed

text \<open>
  Claim C1. \<open>parsePositions\<close> gives the four results the specification lists
  (\<open>"1111"\<close> with 4 expected calls, \<open>"109765"\<close>, \<open>"119765"\<close> and \<open>"12865"\<close> with 5),
  and on every digit run and every expected count it computes exactly the rule of the
  specification: all digits singly when the run length equals the expected count, otherwise
  the left-to-right scan in which \<open>10\<close> is always one position and \<open>11\<close>, \<open>12\<close> are
  one position only when the run is longer than the expected count.
\<close>

theorem parsePositions_spec:
  "parsePositions ''1111'' 4 = [Num 1, Num 1, Num 1, Num 1]
   \<and> parsePositions ''109765'' 5 = [Num 10, Num 9, Num 7, Num 6, Num 5]
   \<and> parsePositions ''119765'' 5 = [Num 11, Num 9, Num 7, Num 6, Num 5]
   \<and> parsePositions ''12865'' 5 = [Num 1, Num 2, Num 8, Num 6, Num 5]
   \<and> (\<forall>run expected. parsePositions run expected = disambiguate run expected)"
proof (intro conjI allI)
  show "parsePositions ''1111'' 4 = [Num 1, Num 1, Num 1, Num 1]" by code_simp
  show "parsePositions ''109765'' 5 = [Num 10, Num 9, Num 7, Num 6, Num 5]" by code_simp
  show "parsePositions ''119765'' 5 = [Num 11, Num 9, Num 7, Num 6, Num 5]" by code_simp
  show "parsePositions ''12865'' 5 = [Num 1, Num 2, Num 8, Num 6, Num 5]" by code_simp
  show "parsePositions run expected = disambiguate run expected" for run expected
    by (rule parsePositions_refines)
qed

section \<open>Proofs: duplicate guard and saving\<close>














lemma has_race_entry_iff:
  "has_race_entry es d t \<longleftrightarrow> (\<exists>e \<in> set es. isRace e \<and> date e = d \<and> track e = Some t)"
  by (induction es) auto


lemma checkDuplicate_keys_iff:
  "checkDuplicate_keys dd n d t \<longleftrightarrow>
     (\<exists>(k, es) \<in> set dd.
        (toUpperCase k = n \<or> str_includes (toUpperCase k) n \<or> str_includes n (toUpperCase k))
        \<and> (\<exists>e \<in> set es. isRace e \<and> date e = d \<and> track e = Some t))"
proof (induction dd)
  case Nil
  show ?case by simp
next
  case (Cons a dd)
  obtain k es where a: "a = (k, es)" by (cases a)
  show ?case unfolding a using Cons.IH
    by (simp add: has_race_entry_iff Let_def del: str_includes.simps) blast
qed





lemma checkDuplicateRace_keys:
  "checkDuplicateRace sess name d t = checkDuplicate_keys (stored_detail sess) (normalizedName name) d t"
  by (simp add: checkDuplicateRace_def stored_detail_def split: option.splits)










text \<open>
  Claim C10. \<open>checkDuplicateRace\<close> answers true exactly when some stored key, upper-cased,
  equals, contains or is contained in the normalised upper-cased name and its entries hold
  a race entry with the given date and track. So a race is flagged against a different
  horse whose name only contains the given name or is contained in it: with the one stored
  horse \<open>Blanco\<close>, both \<open>Blanco Bay\<close> and \<open>Lanc\<close> are flagged.
\<close>

theorem checkDuplicateRace_substring_match:
  "(checkDuplicateRace sessionData horseName raceDate trk \<longleftrightarrow>
     (\<exists>(key, entries) \<in> set (stored_detail sessionData).
        (toUpperCase key = normalizedName horseName
         \<or> str_includes (toUpperCase key) (normalizedName horseName)
         \<or> str_includes (normalizedName horseName) (toUpperCase key))
        \<and> (\<exists>e \<in> set entries. isRace e \<and> date e = raceDate \<and> track e = Some trk)))
   \<and> checkDuplicateRace (Some \<lparr>allHorseDetailData = Some blanco_history\<rparr>) ''Blanco Bay'' ''8/3/2024'' ''SAR''
   \<and> checkDuplicateRace (Some \<lparr>allHorseDetailData = Some blanco_history\<rparr>) ''Lanc'' ''8/3/2024'' ''SAR''"
proof (intro conjI)
  show "checkDuplicateRace sessionData horseName raceDate trk \<longleftrightarrow>
     (\<exists>(key, entries) \<in> set (stored_detail sessionData).
        (toUpperCase key = normalizedName horseName
         \<or> str_includes (toUpperCase key) (normalizedName horseName)
         \<or> str_includes (normalizedName horseName) (toUpperCase key))
        \<and> (\<exists>e \<in> set entries. isRace e \<and> date e = raceDate \<and> track e = Some trk))"
    unfolding checkDuplicateRace_keys by (rule checkDuplicate_keys_iff)
  show "checkDuplicateRace (Some \<lparr>allHorseDetailData = Some blanco_history\<rparr>) ''Blanco Bay'' ''8/3/2024'' ''SAR''"
    by code_simp
  show "checkDuplicateRace (Some \<lparr>allHorseDetailData = Some blanco_history\<rparr>) ''Lanc'' ''8/3/2024'' ''SAR''"
    by code_simp
qed

section \<open>Proofs: alias partition\<close>

text \<open>
  Claim C3 does not hold of the code. Renaming never checks whether the old name it pushes
  as an alias is already an alias of another entry, as merging does. From the empty
  registry, which satisfies the invariant, renaming the unregistered name \<open>Comet\<close> first to
  \<open>Halley\<close> and then to \<open>Encke\<close> is accepted both times and leaves \<open>Comet\<close> in the alias
  arrays of both entries.
\<close>

theorem rename_breaks_alias_partition:
  "alias_partition []
   \<and> apply_ops [] [Rename ''Comet'' ''Halley'', Rename ''Comet'' ''Encke''] =
       Inr [(''Halley'', \<lparr>owner = '''', country = '''', isHistoric = False, aliases = Some [''Comet'']\<rparr>),
            (''Encke'', \<lparr>owner = '''', country = '''', isHistoric = False, aliases = Some [''Comet'']\<rparr>)]
   \<and> \<not> alias_partition
       [(''Halley'', \<lparr>owner = '''', country = '''', isHistoric = False, aliases = Some [''Comet'']\<rparr>),
        (''Encke'', \<lparr>owner = '''', country = '''', isHistoric = False, aliases = Some [''Comet'']\<rparr>)]"
proof (intro conjI)
  show "alias_partition []" by simp
  show "apply_ops [] [Rename ''Comet'' ''Halley'', Rename ''Comet'' ''Encke''] =
       Inr [(''Halley'', \<lparr>owner = '''', country = '''', isHistoric = False, aliases = Some [''Comet'']\<rparr>),
            (''Encke'', \<lparr>owner = '''', country = '''', isHistoric = False, aliases = Some [''Comet'']\<rparr>)]"
    by code_simp
  show "\<not> alias_partition
       [(''Halley'', \<lparr>owner = '''', country = '''', isHistoric = False, aliases = Some [''Comet'']\<rparr>),
        (''Encke'', \<lparr>owner = '''', country = '''', isHistoric = False, aliases = Some [''Comet'']\<rparr>)]"
    by code_simp
qed

section \<open>Proofs: the matcher\<close>

lemma rx_run_Seq_mem:
  "m \<in> set (rx_run (Seq r1 r2) st) \<longleftrightarrow> (\<exists>m1 \<in> set (rx_run r1 st). m \<in> set (rx_run r2 m1))"
  by auto

text \<open>Every end state of a run has consumed a prefix of the remaining text.\<close>

lemma rx_run_consumes:
  "(bef', rest', caps') \<in> set (rx_run r (bef, rest, caps)) \<Longrightarrow>
     \<exists>w. rest = w @ rest' \<and> bef' = rev w @ bef"
proof (induction r arbitrary: bef rest caps bef' rest' caps')
  case Eps
  then show ?case by simp
next
  case (Cls p)
  then show ?case by (auto split: list.splits if_splits)
next
  case (Seq r1 r2)
  from Seq.prems obtain m1 where m1: "m1 \<in> set (rx_run r1 (bef, rest, caps))"
    and m: "(bef', rest', caps') \<in> set (rx_run r2 m1)" by auto
  obtain b1 s1 c1 where m1e: "m1 = (b1, s1, c1)" by (cases m1)
  from Seq.IH(1)[of b1 s1 c1 bef rest caps] m1 m1e
  obtain w1 where w1: "rest = w1 @ s1" "b1 = rev w1 @ bef" by auto
  from Seq.IH(2)[of bef' rest' caps' b1 s1 c1] m m1e
  obtain w2 where w2: "s1 = w2 @ rest'" "bef' = rev w2 @ b1" by auto
  from w1 w2 have "rest = (w1 @ w2) @ rest' \<and> bef' = rev (w1 @ w2) @ bef" by simp
  then show ?case by blast
next
  case (Alt r1 r2)
  then show ?case by auto
next
  case (Greedy lo hi p)
  then obtain k where "bef' = rev (take k rest) @ bef" "rest' = drop k rest" by auto
  then have "rest = take k rest @ rest' \<and> bef' = rev (take k rest) @ bef" by simp
  then show ?case by blast
next
  case (Lazy lo hi p)
  then obtain k where "bef' = rev (take k rest) @ bef" "rest' = drop k rest" by auto
  then have "rest = take k rest @ rest' \<and> bef' = rev (take k rest) @ bef" by simp
  then show ?case by blast
next
  case (Grp i r)
  then obtain c0 where "(bef', rest', c0) \<in> set (rx_run r (bef, rest, caps))" by auto
  with Grp.IH show ?case by blast
next
  case Bol
  then show ?case by (auto split: if_splits)
next
  case BolM
  then show ?case by (auto split: list.splits if_splits)
next
  case Eol
  then show ?case by (auto split: if_splits)
next
  case WordB
  then show ?case by (auto split: if_splits)
qed

text \<open>A search succeeds exactly when the expression matches at some position.\<close>

lemma rx_search_from_None_iff:
  "rx_search_from r bef s = None \<longleftrightarrow>
     (\<forall>pre post. s = pre @ post \<longrightarrow> rx_run r (rev pre @ bef, post, []) = [])"
proof (induction s arbitrary: bef)
  case Nil
  then show ?case by (auto split: list.splits)
next
  case (Cons c cs)
  have "(\<forall>pre post. c # cs = pre @ post \<longrightarrow> rx_run r (rev pre @ bef, post, []) = []) \<longleftrightarrow>
        rx_run r (bef, c # cs, []) = []
        \<and> (\<forall>pre post. cs = pre @ post \<longrightarrow> rx_run r (rev pre @ c # bef, post, []) = [])"
  proof (intro iffI conjI allI impI)
    assume a: "\<forall>pre post. c # cs = pre @ post \<longrightarrow> rx_run r (rev pre @ bef, post, []) = []"
    from a[rule_format, of "[]" "c # cs"] show "rx_run r (bef, c # cs, []) = []" by simp
    fix pre post assume "cs = pre @ post"
    with a[rule_format, of "c # pre" post] show "rx_run r (rev pre @ c # bef, post, []) = []" by simp
  next
    fix pre post
    assume a: "rx_run r (bef, c # cs, []) = []
        \<and> (\<forall>pre post. cs = pre @ post \<longrightarrow> rx_run r (rev pre @ c # bef, post, []) = [])"
      and e: "c # cs = pre @ post"
    show "rx_run r (rev pre @ bef, post, []) = []"
    proof (cases pre)
      case Nil
      with a e show ?thesis by simp
    next
      case (Cons x pre')
      with e have "x = c" "cs = pre' @ post" by simp_all
      with a Cons show ?thesis by simp
    qed
  qed
  with Cons.IH[of "c # bef"] show ?case by (simp split: list.splits)
qed

lemma rx_run_Grp_empty: "rx_run (Grp i r) st = [] \<longleftrightarrow> rx_run r st = []"
  by (cases st) simp

lemma rx_test_iff:
  "rx_test r s \<longleftrightarrow> (\<exists>pre post. s = pre @ post \<and> rx_run r (rev pre, post, []) \<noteq> [])"
proof -
  have "rx_test r s \<longleftrightarrow> rx_search_from (Grp 0 r) [] s \<noteq> None"
    by (auto simp: rx_test_def rx_match_def split: option.splits)
  then show ?thesis
    by (simp add: rx_search_from_None_iff rx_run_Grp_empty)
qed

lemma take_le_takeWhile:
  "k \<le> length (takeWhile p xs) \<Longrightarrow> \<forall>c \<in> set (take k xs). p c"
proof (induction xs arbitrary: k)
  case Nil
  then show ?case by simp
next
  case (Cons x xs)
  show ?case
  proof (cases k)
    case 0
    then show ?thesis by simp
  next
    case (Suc j)
    with Cons.prems have "p x" "j \<le> length (takeWhile p xs)" by (auto split: if_splits)
    with Cons.IH[of j] Suc show ?thesis by simp
  qed
qed

lemma rep_counts_mem:
  "k \<in> set (rep_counts lo hi p rest) \<Longrightarrow> lo \<le> k \<and> k \<le> length (takeWhile p rest)"
  by (auto simp: rep_counts_def Let_def split: option.splits)

lemma rep_consumed_count:
  assumes "k \<in> set (rep_counts lo hi p rest)" and "\<forall>c. p c \<longrightarrow> P c"
  shows "lo \<le> length (filter P (take k rest))"
proof -
  from assms(1) have k: "lo \<le> k" "k \<le> length (takeWhile p rest)" using rep_counts_mem by auto
  then have "\<forall>c \<in> set (take k rest). P c" using take_le_takeWhile assms(2) by blast
  then have "filter P (take k rest) = take k rest" by simp
  moreover from k have "k \<le> length rest"
    by (meson le_trans length_takeWhile_le)
  ultimately show ?thesis using k by simp
qed

lemma rx_run_min_count:
  "(bef', rest', caps') \<in> set (rx_run r (bef, rest, caps)) \<Longrightarrow>
     \<exists>w. rest = w @ rest' \<and> bef' = rev w @ bef \<and> rx_min_count P r \<le> length (filter P w)"
proof (induction r arbitrary: bef rest caps bef' rest' caps')
  case Eps
  then show ?case by simp
next
  case (Cls p)
  then show ?case by (auto split: list.splits if_splits)
next
  case (Seq r1 r2)
  from Seq.prems obtain m1 where m1: "m1 \<in> set (rx_run r1 (bef, rest, caps))"
    and m: "(bef', rest', caps') \<in> set (rx_run r2 m1)" by auto
  obtain b1 s1 c1 where m1e: "m1 = (b1, s1, c1)" by (cases m1)
  from Seq.IH(1)[of b1 s1 c1 bef rest caps] m1 m1e
  obtain w1 where w1: "rest = w1 @ s1" "b1 = rev w1 @ bef" "rx_min_count P r1 \<le> length (filter P w1)"
    by auto
  from Seq.IH(2)[of bef' rest' caps' b1 s1 c1] m m1e
  obtain w2 where w2: "s1 = w2 @ rest'" "bef' = rev w2 @ b1" "rx_min_count P r2 \<le> length (filter P w2)"
    by auto
  from w1 w2 have "rest = (w1 @ w2) @ rest' \<and> bef' = rev (w1 @ w2) @ bef
      \<and> rx_min_count P (Seq r1 r2) \<le> length (filter P (w1 @ w2))" by simp
  then show ?case by blast
next
  case (Alt r1 r2)
  from Alt.prems have "(bef', rest', caps') \<in> set (rx_run r1 (bef, rest, caps))
      \<or> (bef', rest', caps') \<in> set (rx_run r2 (bef, rest, caps))" by auto
  then show ?case
  proof
    assume "(bef', rest', caps') \<in> set (rx_run r1 (bef, rest, caps))"
    from Alt.IH(1)[OF this] obtain w where "rest = w @ rest'" "bef' = rev w @ bef"
      "rx_min_count P r1 \<le> length (filter P w)" by blast
    then have "rest = w @ rest' \<and> bef' = rev w @ bef \<and> rx_min_count P (Alt r1 r2) \<le> length (filter P w)"
      by simp
    then show ?thesis by blast
  next
    assume "(bef', rest', caps') \<in> set (rx_run r2 (bef, rest, caps))"
    from Alt.IH(2)[OF this] obtain w where "rest = w @ rest'" "bef' = rev w @ bef"
      "rx_min_count P r2 \<le> length (filter P w)" by blast
    then have "rest = w @ rest' \<and> bef' = rev w @ bef \<and> rx_min_count P (Alt r1 r2) \<le> length (filter P w)"
      by simp
    then show ?thesis by blast
  qed
next
  case (Greedy lo hi p)
  then obtain k where k: "k \<in> set (rep_counts lo hi p rest)"
    "bef' = rev (take k rest) @ bef" "rest' = drop k rest" by auto
  have "rx_min_count P (Greedy lo hi p) \<le> length (filter P (take k rest))"
    using rep_consumed_count[OF k(1)] by simp
  with k have "rest = take k rest @ rest' \<and> bef' = rev (take k rest) @ bef
     \<and> rx_min_count P (Greedy lo hi p) \<le> length (filter P (take k rest))" by simp
  then show ?case by blast
next
  case (Lazy lo hi p)
  then obtain k where k: "k \<in> set (rep_counts lo hi p rest)"
    "bef' = rev (take k rest) @ bef" "rest' = drop k rest" by auto
  have "rx_min_count P (Lazy lo hi p) \<le> length (filter P (take k rest))"
    using rep_consumed_count[OF k(1)] by simp
  with k have "rest = take k rest @ rest' \<and> bef' = rev (take k rest) @ bef
     \<and> rx_min_count P (Lazy lo hi p) \<le> length (filter P (take k rest))" by simp
  then show ?case by blast
next
  case (Grp i r)
  then obtain c0 where "(bef', rest', c0) \<in> set (rx_run r (bef, rest, caps))" by auto
  from Grp.IH[OF this] show ?case by simp
next
  case Bol
  then show ?case by (auto split: if_splits)
next
  case BolM
  then show ?case by (auto split: list.splits if_splits)
next
  case Eol
  then show ?case by (auto split: if_splits)
next
  case WordB
  then show ?case by (auto split: if_splits)
qed

text \<open>A text with fewer characters of the kind than every match needs is not matched.\<close>

lemma rx_run_too_few:
  assumes "length (filter P rest) < rx_min_count P r"
  shows "rx_run r (bef, rest, caps) = []"
proof (rule ccontr)
  assume "rx_run r (bef, rest, caps) \<noteq> []"
  then obtain m where "m \<in> set (rx_run r (bef, rest, caps))" by (meson last_in_set)
  moreover obtain b s c where "m = (b, s, c)" by (cases m)
  ultimately obtain w where "rest = w @ s" "rx_min_count P r \<le> length (filter P w)"
    using rx_run_min_count by blast
  then have "rx_min_count P r \<le> length (filter P rest)" by simp
  with assms show False by simp
qed

lemma rx_match_too_few:
  assumes "length (filter P s) < rx_min_count P r"
  shows "rx_match r s = None"
proof -
  have "rx_run (Grp 0 r) (rev pre @ [], post, []) = []" if "s = pre @ post" for pre post
  proof -
    from that have "length (filter P post) \<le> length (filter P s)" by simp
    with assms have "length (filter P post) < rx_min_count P r" by simp
    then show ?thesis by (simp add: rx_run_too_few)
  qed
  then have "rx_search_from (Grp 0 r) [] s = None"
    unfolding rx_search_from_None_iff by blast
  then show ?thesis by (simp add: rx_match_def)
qed

lemma rx_test_too_few:
  "length (filter P s) < rx_min_count P r \<Longrightarrow> \<not> rx_test r s"
  by (simp add: rx_test_def rx_match_too_few)



lemma rx_hd_Cls:
  "rx_hd (Cls p) (bef, c # cs, caps) = (if p c then Some (c # bef, cs, caps) else None)"
  by (simp add: rx_hd_def)






lemma upt_rev_head: "lo \<le> n \<Longrightarrow> rev [lo..<Suc n] = n # rev [lo..<n]"
  by simp


lemma rx_hd_Greedy_opt:
  "rx_hd (Greedy 0 (Some 1) p) (bef, rest, caps) =
     (case rest of c # cs \<Rightarrow> if p c then Some (c # bef, cs, caps) else Some (bef, rest, caps)
      | [] \<Rightarrow> Some (bef, rest, caps))"
  by (auto simp: rx_hd_def rep_counts_def split: list.splits)




lemma rx_run_two_digits:
  "rx_run (Greedy 2 (Some 2) p) (bef, rest, caps) =
     (case rest of
        a # b # r \<Rightarrow> if p a \<and> p b then [(b # a # bef, r, caps)] else []
      | _ \<Rightarrow> [])"
  by (auto simp: rep_counts_def Let_def split: list.splits)

section \<open>Proofs: race class and surface\<close>

lemma rx_run_ws1_space:
  "\<not> is_space c \<Longrightarrow> rx_run ws1 (bef, CHR '' '' # c # rest, caps) = [(CHR '' '' # bef, c # rest, caps)]"
  by (simp add: ws1_def rep_counts_def is_space_def)

lemma maidenClaiming_literal:
  "rx_run rx_maidenClaiming (bef, ''Maiden Claiming'' @ post, caps) \<noteq> []"
  by (simp add: rx_maidenClaiming_def rx_run_ws1_space lower_char_def upper_letters_def lower_letters_def is_space_def)

lemma contains_maidenClaiming: "rx_test rx_maidenClaiming (pre @ ''Maiden Claiming'' @ post)"
  unfolding rx_test_iff using maidenClaiming_literal by blast

lemma extract_raceType_rules: "extract_raceType text = first_rule (race_class_rules text)"
  by (simp add: extract_raceType_def race_class_rules_def Let_def)

lemma maidenClaiming_not_CLM:
  assumes "rx_test rx_maidenClaiming text"
  shows "extract_raceType text \<noteq> ''CLM''"
  using assms
  by (simp add: extract_raceType_def Let_def split: option.splits)

lemma maidenClaiming_MCL:
  assumes "rx_test rx_maidenClaiming text" and "\<not> higher_than_maidenClaiming text"
  shows "extract_raceType text = ''MCL''"
  using assms by (simp add: extract_raceType_def higher_than_maidenClaiming_def Let_def)

text \<open>
  Claim C5 fails as stated on two counts. A text that contains \<open>Maiden Claiming\<close> and no
  \<open>$\<close> price resolves to a class of higher priority when one of its patterns occurs as
  well, here \<open>MSW\<close>; and a text with the word \<open>Allowance\<close> and a \<open>Claiming Price $\<close>
  resolves to \<open>CLM\<close>, so the allowance pattern does not always win over claiming with a
  price.
\<close>

theorem raceType_priority_counterexample:
  "rx_test rx_maidenClaiming ''Maiden Special Weight. Maiden Claiming''
   \<and> \<not> rx_test rx_claimingPrice ''Maiden Special Weight. Maiden Claiming''
   \<and> \<not> rx_test rx_claimingDollar ''Maiden Special Weight. Maiden Claiming''
   \<and> extract_raceType ''Maiden Special Weight. Maiden Claiming'' = ''MSW''
   \<and> rx_test rx_allowance ''Allowance. Claiming Price $5,000''
   \<and> extract_raceType ''Allowance. Claiming Price $5,000'' = ''CLM''"
  by (intro conjI; code_simp)

text \<open>
  Claim C5 as amended. The race class is the class of the first rule that holds, in the
  order allowance-optional-claiming, maiden-special-weight, graded stakes, named stakes,
  maiden claiming, starter allowance, allowance (only without a \<open>Claiming Price $\<close>),
  claiming with an explicit price, handicap. Every text that contains \<open>Maiden Claiming\<close>
  resolves to \<open>MCL\<close> unless one of the four patterns tested before it matches, and never
  to \<open>CLM\<close>, with or without a \<open>$\<close> price.
\<close>

theorem raceType_priority_order:
  "extract_raceType text = first_rule (race_class_rules text)
   \<and> (\<not> higher_than_maidenClaiming (pre @ ''Maiden Claiming'' @ post)
        \<longrightarrow> extract_raceType (pre @ ''Maiden Claiming'' @ post) = ''MCL'')
   \<and> extract_raceType (pre @ ''Maiden Claiming'' @ post) \<noteq> ''CLM''"
  using extract_raceType_rules maidenClaiming_MCL[OF contains_maidenClaiming]
    maidenClaiming_not_CLM[OF contains_maidenClaiming] by blast

lemma saratoga_not_higher:
  "\<not> higher_than_maidenClaiming (''6 Furlongs '' @ ''Maiden Claiming'' @ '' Purse'')"
  by code_simp

theorem raceType_priority_order_witness:
  "extract_raceType (''6 Furlongs '' @ ''Maiden Claiming'' @ '' Purse'') = ''MCL''
   \<and> extract_raceType (''6 Furlongs '' @ ''Maiden Claiming'' @ '' Purse'')
        = first_rule (race_class_rules (''6 Furlongs '' @ ''Maiden Claiming'' @ '' Purse''))"
  using raceType_priority_order[of "''6 Furlongs '' @ ''Maiden Claiming'' @ '' Purse''"
      "''6 Furlongs ''" "'' Purse''"] saratoga_not_higher
  by blast

text \<open>
  Claim C9. Whenever the track resolves to \<open>TP\<close>, the returned surface is \<open>AWT\<close>, whatever
  the surface detection found in the text.
\<close>

theorem turfway_surface_is_AWT:
  "md_track (extractRaceMetadata text) = ''TP'' \<Longrightarrow> md_surface (extractRaceMetadata text) = ''AWT''"
  by (simp add: extractRaceMetadata_def Let_def split: prod.splits if_splits)

lemma md_track_eq: "md_track (extractRaceMetadata text) = detect_track trackNames text"
  by (simp add: extractRaceMetadata_def Let_def split: prod.splits)

lemma turfway_example_track:
  "md_track (extractRaceMetadata ''Turfway Park'') = ''TP''"
  unfolding md_track_eq by code_simp

lemma turfway_example_detected: "detect_surface ''Turfway Park'' = ''T''"
  by code_simp

theorem turfway_surface_is_AWT_witness:
  "md_track (extractRaceMetadata ''Turfway Park'') = ''TP''
   \<and> md_surface (extractRaceMetadata ''Turfway Park'') = ''AWT''
   \<and> detect_surface ''Turfway Park'' = ''T''"
  using turfway_surface_is_AWT[OF turfway_example_track] turfway_example_track turfway_example_detected
  by blast

section \<open>Proofs: final time\<close>

lemma rx_run_minutesTime:
  "rx_run rx_minutesTime (bef, s, caps) =
     (if time_starts s then [(rev (take 7 s) @ bef, drop 7 s, caps)] else [])"
  unfolding rx_minutesTime_def time_starts_def is_minutes_time_def
  by (auto simp add: rx_run_two_digits simp del: rx_run.simps(5) split: list.splits)

lemma rx_match_all_skip:
  "rx_match_all_from r bef (xs @ rest) (length xs) = rx_match_all_from r (rev xs @ bef) rest 0"
  by (induction xs arbitrary: bef) simp_all

lemma is_minutes_time_length: "is_minutes_time t \<Longrightarrow> length t = 7"
  by (auto simp: is_minutes_time_def split: list.splits)

lemma allMinutesTimes_skip_prefix:
  assumes "\<forall>i<length pre. \<not> time_starts (drop i (pre @ s))"
  shows "rx_match_all_from rx_minutesTime bef (pre @ s) 0 =
         rx_match_all_from rx_minutesTime (rev pre @ bef) s 0"
  using assms
proof (induction pre arbitrary: bef)
  case Nil
  show ?case by simp
next
  case (Cons c pre)
  from Cons.prems[rule_format, of 0] have no: "\<not> time_starts (c # pre @ s)" by simp
  have "\<forall>i<length pre. \<not> time_starts (drop i (pre @ s))"
  proof (intro allI impI)
    fix i assume "i < length pre"
    with Cons.prems[rule_format, of "Suc i"] show "\<not> time_starts (drop i (pre @ s))" by simp
  qed
  from Cons.IH[OF this, of "c # bef"] no show ?case
    by (simp add: rx_run_minutesTime)
qed

lemma allMinutesTimes_at_time:
  assumes "is_minutes_time t"
  shows "rx_match_all_from rx_minutesTime bef (t @ rest) 0 =
         t # rx_match_all_from rx_minutesTime (rev t @ bef) rest 0"
proof -
  from assms have len: "length t = 7" by (rule is_minutes_time_length)
  then obtain m t' where t: "t = m # t'" by (cases t) auto
  with len have len': "length t' = 6" by simp
  from assms len have ts: "time_starts (t @ rest)" by (simp add: time_starts_def)
  from len have run: "rx_run rx_minutesTime (bef, t @ rest, []) = [(rev t @ bef, rest, [])]"
    using ts by (simp add: rx_run_minutesTime)
  from len have mt: "matched_text bef (rev t @ bef, rest, []) = t"
    by (simp add: matched_text_def)
  have "rx_match_all_from rx_minutesTime bef (m # t' @ rest) 0 =
        t # rx_match_all_from rx_minutesTime (m # bef) (t' @ rest) (length t')"
    using run mt t len by simp
  also have "rx_match_all_from rx_minutesTime (m # bef) (t' @ rest) (length t') =
        rx_match_all_from rx_minutesTime (rev t' @ m # bef) rest 0"
    by (rule rx_match_all_skip)
  finally show ?thesis using t by simp
qed

lemma matched_text_minutesTime:
  "time_starts s \<Longrightarrow> matched_text bef (rev (take 7 s) @ bef, drop 7 s, caps) = take 7 s"
  by (auto simp: matched_text_def time_starts_def dest!: is_minutes_time_length)

text \<open>The time pattern has no assertion, so what precedes the searched text plays no role.\<close>

lemma allMinutesTimes_context:
  "rx_match_all_from rx_minutesTime bef s k = rx_match_all_from rx_minutesTime bef' s k"
proof (induction s arbitrary: bef bef' k)
  case Nil
  then show ?case by (simp add: rx_run_minutesTime time_starts_def is_minutes_time_def)
next
  case (Cons c cs)
  show ?case
  proof (cases "k > 0")
    case True
    then show ?thesis using Cons.IH[of "c # bef" "k - 1" "c # bef'"] by simp
  next
    case False
    then have k: "k = 0" by simp
    show ?thesis
    proof (cases "time_starts (c # cs)")
      case True
      have run: "rx_run rx_minutesTime (b, c # cs, []) = [(rev (take 7 (c # cs)) @ b, drop 7 (c # cs), [])]" for b
        using True by (simp only: rx_run_minutesTime if_True)
      have step: "rx_match_all_from rx_minutesTime b (c # cs) 0 =
            take 7 (c # cs) # rx_match_all_from rx_minutesTime (c # b) cs (length (take 7 (c # cs)) - 1)" for b
        by (simp only: rx_match_all_from.simps(2) run matched_text_minutesTime[OF True]
              list.case less_irrefl if_False)
      show ?thesis unfolding k step
        using Cons.IH[of "c # bef" "length (take 7 (c # cs)) - 1" "c # bef'"] by (simp only:)
    next
      case False
      then show ?thesis using Cons.IH[of "c # bef" 0 "c # bef'"] k
        by (simp add: rx_run_minutesTime)
    qed
  qed
qed

text \<open>
  Claim C6. When the text after the horse name is \<open>pre @ t @ rest\<close>, where \<open>t\<close> has the
  shape \<open>M:SS.SS\<close> and no such time starts at any position before it, the final time is
  \<open>t\<close>: the times found are \<open>t\<close> followed by those found in \<open>rest\<close>, and the first of
  them is taken whatever \<open>rest\<close> holds, in particular a second time that bled in from
  the next horse's row.
\<close>

theorem finalTime_is_first_occurrence:
  assumes "afterHorse horseLine horseName = pre @ t @ rest"
    and "is_minutes_time t"
    and "\<forall>i<length pre. \<not> time_starts (drop i (pre @ t @ rest))"
  shows "finalTime horseLine horseName = t
         \<and> allMinutesTimes (afterHorse horseLine horseName) = t # allMinutesTimes rest"
proof -
  have "allMinutesTimes (pre @ t @ rest) = rx_match_all_from rx_minutesTime (rev pre @ []) (t @ rest) 0"
    unfolding allMinutesTimes_def rx_match_all_def
    by (rule allMinutesTimes_skip_prefix[OF assms(3)])
  also have "\<dots> = t # rx_match_all_from rx_minutesTime (rev t @ rev pre @ []) rest 0"
    by (rule allMinutesTimes_at_time[OF assms(2)])
  also have "rx_match_all_from rx_minutesTime (rev t @ rev pre @ []) rest 0 = allMinutesTimes rest"
    unfolding allMinutesTimes_def rx_match_all_def by (rule allMinutesTimes_context)
  finally have "allMinutesTimes (pre @ t @ rest) = t # allMinutesTimes rest" .
  with assms(1) show ?thesis by (simp add: finalTime_def)
qed

lemma all_less_list_all: "(\<forall>i<n. P i) \<longleftrightarrow> list_all P [0..<n]"
  by (auto simp: list_all_iff)

lemma paradise_row:
  "afterHorse ''Paradise3.80brk23.1246.191:11.0774221:12.3331'' ''PARADISE'' =
     ''3.80brk23.1246.19'' @ ''1:11.07'' @ ''74221:12.3331''"
  by code_simp

lemma paradise_time: "is_minutes_time ''1:11.07''"
  by code_simp

lemma paradise_first:
  "\<forall>i<length ''3.80brk23.1246.19''.
      \<not> time_starts (drop i (''3.80brk23.1246.19'' @ ''1:11.07'' @ ''74221:12.3331''))"
  unfolding all_less_list_all by code_simp

lemma paradise_rest: "allMinutesTimes ''74221:12.3331'' = [''1:12.33'']"
  by code_simp

theorem finalTime_is_first_occurrence_witness:
  "finalTime ''Paradise3.80brk23.1246.191:11.0774221:12.3331'' ''PARADISE'' = ''1:11.07''
   \<and> allMinutesTimes (afterHorse ''Paradise3.80brk23.1246.191:11.0774221:12.3331'' ''PARADISE'')
       = [''1:11.07'', ''1:12.33'']"
  using finalTime_is_first_occurrence[OF paradise_row paradise_time paradise_first]
  by (simp add: paradise_rest)

section \<open>Proofs: name resolution\<close>

lemma find_first_match:
  assumes "\<forall>x \<in> set xs. \<not> P x" and "P y"
  shows "List.find P (xs @ y # ys) = Some y"
  using assms by (induction xs) auto

lemma resolve_direct:
  assumes "spelling \<noteq> []" and "k \<noteq> []" and "name_matches spelling k"
    and "\<forall>k' \<in> set (map fst before). \<not> name_matches spelling k'"
  shows "resolveHorseAlias spelling (before @ (k, data) # after) = k"
proof -
  have "List.find (name_matches spelling) (map fst before @ k # map fst after) = Some k"
    using assms(3,4) by (rule find_first_match[rotated])
  with assms(1,2) show ?thesis by (simp add: resolveHorseAlias_def Let_def)
qed

lemma ginger_punch_key: "normalizeHorseNameForMatch ''2022 Ginger Punch'' = ''gingerpunch22''"
  by code_simp

lemma ginger_punch_spelling: "normalizeHorseNameForMatch ''GINGER PUNCH 22'' = ''gingerpunch22''"
  by code_simp

text \<open>
  Claim C4 fails as stated: resolution returns the first key of the registry that matches
  the spelling, so a registry that also holds the entry \<open>Ginger Punch 22\<close> before
  \<open>2022 Ginger Punch\<close> resolves \<open>GINGER PUNCH 22\<close> to that other entry.
\<close>

theorem ginger_punch_counterexample:
  "resolveHorseAlias ''GINGER PUNCH 22''
     [(''Ginger Punch 22'', \<lparr>owner = '''', country = '''', isHistoric = False, aliases = Some []\<rparr>),
      (''2022 Ginger Punch'',
         \<lparr>owner = '''', country = '''', isHistoric = False, aliases = Some [''Ginger Punch'']\<rparr>)]
   = ''Ginger Punch 22''"
  by code_simp

text \<open>
  Claim C4 as amended. \<open>2022 Ginger Punch\<close> and \<open>GINGER PUNCH 22\<close> normalise to the same
  key \<open>gingerpunch22\<close>, and every spelling with that key resolves to the canonical entry
  \<open>2022 Ginger Punch\<close> of a registry, whatever its data and aliases, provided no key that
  stands before it in the registry matches the spelling.
\<close>

theorem ginger_punch_resolves:
  "normalizeHorseNameForMatch ''2022 Ginger Punch'' = normalizeHorseNameForMatch ''GINGER PUNCH 22''
   \<and> (normalizeHorseNameForMatch spelling = normalizeHorseNameForMatch ''GINGER PUNCH 22''
        \<and> list_all (\<lambda>k. \<not> name_matches spelling k) (map fst before)
        \<longrightarrow> resolveHorseAlias spelling (before @ [(''2022 Ginger Punch'', data)] @ after)
              = ''2022 Ginger Punch'')"
proof (intro conjI impI)
  show "normalizeHorseNameForMatch ''2022 Ginger Punch'' = normalizeHorseNameForMatch ''GINGER PUNCH 22''"
    by (simp only: ginger_punch_key ginger_punch_spelling)
next
  assume a: "normalizeHorseNameForMatch spelling = normalizeHorseNameForMatch ''GINGER PUNCH 22''
        \<and> list_all (\<lambda>k. \<not> name_matches spelling k) (map fst before)"
  then have n: "normalizeHorseNameForMatch spelling = ''gingerpunch22''"
    by (simp only: ginger_punch_spelling)
  then have ne: "spelling \<noteq> []" by (auto simp: normalizeHorseNameForMatch_def)
  from n have m: "name_matches spelling ''2022 Ginger Punch''"
    by (simp only: name_matches_def ginger_punch_key simp_thms)
  from a have "\<forall>k' \<in> set (map fst before). \<not> name_matches spelling k'"
    by (simp add: list_all_iff)
  from resolve_direct[OF ne _ m this, of data after]
  show "resolveHorseAlias spelling (before @ [(''2022 Ginger Punch'', data)] @ after) = ''2022 Ginger Punch''"
    by simp
qed

lemma secretariat_no_match: "list_all (\<lambda>k. \<not> name_matches ''GINGER PUNCH 22'' k) (map fst [(''Secretariat'', fresh_entry)])"
  by code_simp

theorem ginger_punch_resolves_witness:
  "resolveHorseAlias ''GINGER PUNCH 22''
     ([(''Secretariat'', fresh_entry)]
      @ [(''2022 Ginger Punch'', fresh_entry\<lparr>aliases := Some [''Ginger Punch'']\<rparr>)] @ [])
   = ''2022 Ginger Punch''"
  using ginger_punch_resolves[of "''GINGER PUNCH 22''" "[(''Secretariat'', fresh_entry)]"
      "fresh_entry\<lparr>aliases := Some [''Ginger Punch'']\<rparr>" "[]"] secretariat_no_match
  by blast

section \<open>Proofs: distance\<close>













lemma digits_no_slash: "list_all is_digit ds \<Longrightarrow> filter (\<lambda>c. c = CHR ''/'') ds = []"
  by (induction ds) (auto simp: is_digit_def)




















lemma no_slash_simple:
  assumes "list_all is_digit w"
  shows "filter (\<lambda>c. c = CHR ''/'') (w @ u) = filter (\<lambda>c. c = CHR ''/'') u"
  by (simp only: filter_append digits_no_slash[OF assms] append_Nil)
















section \<open>Proofs: display round trip\<close>










































end
